theory Spec2Isabelle
  imports Main
begin

section \<open>Data model\<close>

text \<open>
  The checks of \<^verbatim>\<open>ekranoplan/checks.py\<close> read rows of the store and decide. The rows are
  records with the columns the checks touch; identifiers, positions and permission
  bitsets are Python integers, hence \<^typ>\<open>int\<close>. Column names carry the name of their
  table, since \<^verbatim>\<open>id\<close> and \<^verbatim>\<open>bot\<close> are constants of HOL.
\<close>

datatype error =
  Forbidden | NotFound | BadData | Unauthenticated | DoesNotExist | AttributeError | QueryException

record user =
  user_id :: int
  user_bot :: bool
  user_flags :: int

record member =
  member_id :: int
  member_guild_id :: int
  member_owner :: bool
  member_roles :: "int list"

record guild =
  guild_id :: int
  guild_permissions :: int

record role =
  role_id :: int
  role_permissions :: int

record permission_overwrites =
  ow_id :: int
  ow_allow :: int
  ow_deny :: int

record guild_channel =
  channel_id :: int
  channel_guild_id :: int
  channel_position :: int
  channel_parent_id :: "int option"
  channel_permission_overwrites :: "permission_overwrites list"

record message =
  msg_id :: int
  msg_channel_id :: int
  msg_bucket_id :: int
  msg_content :: string

section \<open>The collaborators of the checks\<close>

text \<open>
  \<^verbatim>\<open>checks.py\<close> imports its collaborators from modules that are not part of the
  sources at hand: \<^verbatim>\<open>verify_token\<close> (tokens), the tables \<^verbatim>\<open>Member\<close>, \<^verbatim>\<open>GuildChannel\<close>,
  \<^verbatim>\<open>Guild\<close>, \<^verbatim>\<open>Role\<close>, \<^verbatim>\<open>Message\<close> (database), \<^verbatim>\<open>GuildPermissions\<close> (flags) and
  \<^verbatim>\<open>get_bucket\<close> (randoms). They are parameters of every function below, collected in
  one record:
  \<^item> \<open>verify_token\<close>: the user of a token, or the error the verification raises;
  \<^item> \<open>member_get uid gid\<close>: \<^verbatim>\<open>Member.objects(Member.id == uid, Member.guild_id == gid).get()\<close>,
    \<open>None\<close> when it raises \<^verbatim>\<open>DoesNotExist\<close>; likewise \<open>channel_get cid gid\<close>
    and \<open>guild_get gid\<close>;
  \<^item> \<open>role_get rid\<close>: the row of the \<^verbatim>\<open>Role\<close> table with that id (the table is there,
    though \<^verbatim>\<open>validate_channel\<close> does not get as far as reading it, see \<open>role_objects\<close>);
  \<^item> \<open>channels_all gid\<close>: the rows of \<^verbatim>\<open>GuildChannel.objects(GuildChannel.guild_id == gid).all()\<close>;
  \<^item> \<open>messages_page cid b limit\<close>: the rows of the query on the partition \<open>(cid, b)\<close>
    with \<^verbatim>\<open>.limit(limit).order_by('-id')\<close>;
  \<^item> \<open>message_get mid cid b\<close>: the point query \<open>(mid, cid, b)\<close> with \<^verbatim>\<open>.get()\<close>, \<open>None\<close>
    when it raises (anything: the caller's \<^verbatim>\<open>except:\<close> is bare);
  \<^item> \<open>get_bucket cid\<close>: the current bucket of a channel;
  \<^item> \<open>has_flag name bits\<close>: the attribute \<open>name\<close> of \<^verbatim>\<open>GuildPermissions(bits)\<close>, \<open>None\<close>
    when the class has no flag of that name (\<^verbatim>\<open>getattr\<close> raises \<^verbatim>\<open>AttributeError\<close>).
\<close>

record env =
  verify_token :: "string \<Rightarrow> error + user"
  member_get :: "int \<Rightarrow> int \<Rightarrow> member option"
  channel_get :: "int \<Rightarrow> int \<Rightarrow> guild_channel option"
  guild_get :: "int \<Rightarrow> guild option"
  role_get :: "int \<Rightarrow> role option"
  channels_all :: "int \<Rightarrow> guild_channel list"
  messages_page :: "int \<Rightarrow> int \<Rightarrow> int \<Rightarrow> message list"
  message_get :: "int \<Rightarrow> int \<Rightarrow> int \<Rightarrow> message option"
  get_bucket :: "int \<Rightarrow> int"
  has_flag :: "string \<Rightarrow> int \<Rightarrow> bool option"

text \<open>
  Every call to the token verifier or to the store is recorded, in the order the code
  issues it, so that a statement can say which lookups a check consults.
\<close>

datatype call =
    VerifyToken string
  | MemberGet int int
  | ChannelGet int int
  | GuildGet int
  | RoleGet int
  | ChannelsAll int
  | MessagesPage int int int
  | MessageGet int int int

text \<open>
  A computation yields the calls it issued and either the exception it raised
  (\<open>Inl\<close>) or its value (\<open>Inr\<close>).
\<close>

type_synonym 'a io = "call list \<times> (error + 'a)"

definition ret :: "'a \<Rightarrow> 'a io" where
  "ret x = ([], Inr x)"

definition raise :: "error \<Rightarrow> 'a io" where
  "raise e = ([], Inl e)"

definition bind_io :: "'a io \<Rightarrow> ('a \<Rightarrow> 'b io) \<Rightarrow> 'b io" where
  "bind_io m f =
     (case m of
        (l, Inl e) \<Rightarrow> (l, Inl e)
      | (l, Inr x) \<Rightarrow> (case f x of (l', r) \<Rightarrow> (l @ l', r)))"

definition lookup :: "call \<Rightarrow> error \<Rightarrow> 'a option \<Rightarrow> 'a io" where
  \<comment> \<open>one \<^verbatim>\<open>.get()\<close>: the call is issued; a missing row raises \<open>e\<close>\<close>
  "lookup c e r = ([c], case r of None \<Rightarrow> Inl e | Some x \<Rightarrow> Inr x)"

definition getattr :: "env \<Rightarrow> int \<Rightarrow> string \<Rightarrow> bool io" where
  \<comment> \<open>\<^verbatim>\<open>getattr(GuildPermissions(bits), name)\<close>\<close>
  "getattr E bits name =
     (case has_flag E name bits of None \<Rightarrow> raise AttributeError | Some b \<Rightarrow> ret b)"

section \<open>Session and membership\<close>

definition valid_session :: "env \<Rightarrow> string \<Rightarrow> user io" where
  "valid_session E token = ([VerifyToken token], verify_token E token)"

definition validate_user :: "env \<Rightarrow> string \<Rightarrow> bool \<Rightarrow> user io" where
  "validate_user E token stop_bots =
     bind_io (valid_session E token) (\<lambda>user.
       if stop_bots \<and> user_bot user then raise Forbidden else ret user)"

text \<open>
  \<^verbatim>\<open>validate_member\<close> takes \<open>stop_bots\<close> and calls \<^verbatim>\<open>validate_user(token=token)\<close>: the
  argument is not handed on, so the callee runs with its default, \<open>False\<close>.
\<close>

definition validate_member :: "env \<Rightarrow> string \<Rightarrow> int \<Rightarrow> bool \<Rightarrow> (member \<times> user) io" where
  "validate_member E token gid stop_bots =
     bind_io (validate_user E token False) (\<lambda>user.
     bind_io (lookup (MemberGet (user_id user) gid) Forbidden (member_get E (user_id user) gid))
       (\<lambda>member. ret (member, user)))"

section \<open>Channel permissions\<close>

text \<open>
  The scan of \<^verbatim>\<open>channel.permission_overwrites\<close>: it stops at the first overwrite whose
  id is the user's and keeps its two bitsets; \<open>None\<close> is \<^verbatim>\<open>user_found = False\<close>.
\<close>

fun find_overwrite :: "int \<Rightarrow> permission_overwrites list \<Rightarrow> (int \<times> int) option" where
  "find_overwrite uid [] = None"
| "find_overwrite uid (overwrite # rest) =
     (if ow_id overwrite = uid then Some (ow_allow overwrite, ow_deny overwrite)
      else find_overwrite uid rest)"

text \<open>
  The role lookup is written \<^verbatim>\<open>Role.objects(role_id).get()\<close>. The other lookups hand
  \<^verbatim>\<open>objects\<close> a filter expression (\<^verbatim>\<open>Member.id == user.id\<close>, \<^verbatim>\<open>Guild.id == guild_id\<close>) or
  keywords (\<^verbatim>\<open>id=channel_id\<close>); this one hands it the bare integer. The query builder
  refuses a positional argument that is not a filter expression with \<^verbatim>\<open>QueryException\<close>,
  so the call raises before \<^verbatim>\<open>.get()\<close> is reached and no row is read.
\<close>

definition role_objects :: "int \<Rightarrow> role io" where
  "role_objects rid = raise QueryException"

definition validate_channel ::
  "env \<Rightarrow> string \<Rightarrow> int \<Rightarrow> int \<Rightarrow> string \<Rightarrow> bool \<Rightarrow> (member \<times> user \<times> guild_channel) io" where
  "validate_channel E token gid cid permission stop_bots =
     bind_io (validate_member E token gid stop_bots) (\<lambda>(member, user).
     bind_io (lookup (ChannelGet cid gid) NotFound (channel_get E cid gid)) (\<lambda>channel.
       if member_owner member then ret (member, user, channel)
       else
         (case find_overwrite (user_id user) (channel_permission_overwrites channel) of
            None \<Rightarrow>
              bind_io
                (case member_roles member of
                   [] \<Rightarrow>
                     bind_io (lookup (GuildGet gid) DoesNotExist (guild_get E gid))
                       (\<lambda>guild. ret (guild_permissions guild))
                 | rid # _ \<Rightarrow>
                     bind_io (role_objects rid)
                       (\<lambda>role. ret (role_permissions role)))
                (\<lambda>permissions.
                   bind_io (getattr E permissions ''administator'') (\<lambda>admin.
                     if admin then ret (member, user, channel)
                     else
                       bind_io (getattr E permissions permission) (\<lambda>granted.
                         if \<not> granted then raise Forbidden
                         else ret (member, user, channel))))
          | Some (allow_permissions, disallow_permissions) \<Rightarrow>
              bind_io (getattr E disallow_permissions permission) (\<lambda>denied.
                if denied then raise Forbidden
                else
                  bind_io (getattr E allow_permissions permission) (\<lambda>allowed.
                    if \<not> allowed then raise Forbidden
                    else ret (member, user, channel))))))"

section \<open>Messages\<close>

text \<open>
  \<^verbatim>\<open>range(n)\<close> and the slice \<^verbatim>\<open>xs[k:]\<close> of Python: the range of a number below one is
  empty, and a negative \<open>k\<close> counts from the end of the list.
\<close>

definition py_range :: "int \<Rightarrow> int list" where
  "py_range n = map int [0 ..< nat n]"

definition py_slice_from :: "int \<Rightarrow> 'a list \<Rightarrow> 'a list" where
  "py_slice_from k xs =
     (if 0 \<le> k then drop (nat k) xs else drop (nat (int (length xs) + k)) xs)"

text \<open>
  The listing loop. Each bucket's rows are appended to \<open>collected\<close> as one element
  (\<^verbatim>\<open>collected_messages.append(msgs)\<close>); once the list is longer than \<open>limit\<close> it is
  replaced by \<^verbatim>\<open>collected_messages[limit:]\<close> and the loop is left.
\<close>

fun collect_messages ::
  "env \<Rightarrow> int \<Rightarrow> int \<Rightarrow> int list \<Rightarrow> message list list \<Rightarrow> call list \<times> message list list" where
  "collect_messages E cid limit [] collected = ([], collected)"
| "collect_messages E cid limit (bucket # rest) collected =
     (let msgs = messages_page E cid bucket limit;
          collected' = collected @ [msgs]
      in if int (length collected') > limit
         then ([MessagesPage cid bucket limit], py_slice_from limit collected')
         else (case collect_messages E cid limit rest collected' of
                 (l, r) \<Rightarrow> (MessagesPage cid bucket limit # l, r)))"

text \<open>
  The point lookup loop: the first bucket whose \<^verbatim>\<open>.get()\<close> does not raise returns its
  row; running off the end of the loop returns \<^verbatim>\<open>None\<close>.
\<close>

fun find_message :: "env \<Rightarrow> int \<Rightarrow> int \<Rightarrow> int list \<Rightarrow> call list \<times> message option" where
  "find_message E mid cid [] = ([], None)"
| "find_message E mid cid (bucket # rest) =
     (case message_get E mid cid bucket of
        Some msg \<Rightarrow> ([MessageGet mid cid bucket], Some msg)
      | None \<Rightarrow>
          (case find_message E mid cid rest of
             (l, r) \<Rightarrow> (MessageGet mid cid bucket # l, r)))"

datatype search_result = Messages "message list list" | OneMessage message | NoMessage

definition search_messages :: "env \<Rightarrow> int \<Rightarrow> int option \<Rightarrow> int \<Rightarrow> search_result io" where
  "search_messages E cid message_id limit =
     (let current_bucket = get_bucket E cid in
      case message_id of
        None \<Rightarrow>
          (case collect_messages E cid limit (py_range current_bucket) [] of
             (l, collected) \<Rightarrow> (l, Inr (Messages collected)))
      | Some mid \<Rightarrow>
          (case find_message E mid cid (py_range current_bucket) of
             (l, Some msg) \<Rightarrow> (l, Inr (OneMessage msg))
           | (l, None) \<Rightarrow> (l, Inr NoMessage)))"

section \<open>Channel positions\<close>

definition highest_position :: "guild_channel list \<Rightarrow> int" where
  \<comment> \<open>the loop over \<^verbatim>\<open>guild_channels\<close>, started at \<^verbatim>\<open>highest_pos = 0\<close>\<close>
  "highest_position chans =
     foldl (\<lambda>highest_pos channel.
              if channel_position channel > highest_pos then channel_position channel
              else highest_pos) 0 chans"

definition verify_channel_position :: "env \<Rightarrow> int \<Rightarrow> int \<Rightarrow> unit io" where
  "verify_channel_position E pos gid =
     (let guild_channels = channels_all E gid;
          highest_pos = highest_position guild_channels
      in ([ChannelsAll gid], if pos \<noteq> highest_pos + 1 then Inl BadData else Inr ()))"

section \<open>Notions of the specification\<close>

text \<open>
  The bucket a recorded call addresses, if it is a query on the message table.
\<close>

definition bucket_of_call :: "call \<Rightarrow> int option" where
  "bucket_of_call c =
     (case c of MessagesPage _ b _ \<Rightarrow> Some b | MessageGet _ _ b \<Rightarrow> Some b | _ \<Rightarrow> None)"

text \<open>
  The baseline bitset in the specification's words: the bitset of the role named by the
  member's first role id, or the guild's default bitset when the member has no roles;
  \<open>None\<close> when that row is missing.
\<close>

definition baseline_permissions :: "env \<Rightarrow> int \<Rightarrow> member \<Rightarrow> int option" where
  "baseline_permissions E gid m =
     (case member_roles m of
        [] \<Rightarrow> map_option guild_permissions (guild_get E gid)
      | rid # _ \<Rightarrow> map_option role_permissions (role_get E rid))"

text \<open>
  The maximum position among a guild's channels, in the specification's words.
\<close>

definition max_position :: "guild_channel list \<Rightarrow> int" where
  "max_position chans = Max (set (map channel_position chans))"

section \<open>Example stores\<close>

text \<open>
  Small concrete collaborators on which the checks are run. The example flag class has
  three flags, one bit each; \<^verbatim>\<open>administator\<close> is spelled as \<^verbatim>\<open>validate_channel\<close> reads it.
\<close>

definition example_flag_bit :: "string \<Rightarrow> nat option" where
  "example_flag_bit name =
     (if name = ''send_messages'' then Some 0
      else if name = ''manage_channels'' then Some 1
      else if name = ''administator'' then Some 2
      else None)"

definition example_has_flag :: "string \<Rightarrow> int \<Rightarrow> bool option" where
  "example_has_flag name bits = map_option (bit bits) (example_flag_bit name)"

definition empty_env :: env where
  "empty_env =
     \<lparr> verify_token = (\<lambda>_. Inl Unauthenticated),
       member_get = (\<lambda>_ _. None),
       channel_get = (\<lambda>_ _. None),
       guild_get = (\<lambda>_. None),
       role_get = (\<lambda>_. None),
       channels_all = (\<lambda>_. []),
       messages_page = (\<lambda>_ _ _. []),
       message_get = (\<lambda>_ _ _. None),
       get_bucket = (\<lambda>_. 0),
       has_flag = example_has_flag \<rparr>"

text \<open>
  A store with one user (behind the token \<^verbatim>\<open>token\<close>), one membership, one channel, one
  guild and one role.
\<close>

definition guild_env :: "user \<Rightarrow> member \<Rightarrow> guild_channel \<Rightarrow> guild \<Rightarrow> role \<Rightarrow> env" where
  "guild_env u m ch g r =
     empty_env
       \<lparr> verify_token := (\<lambda>t. if t = ''token'' then Inr u else Inl Unauthenticated),
         member_get := (\<lambda>uid gid.
           if uid = member_id m \<and> gid = member_guild_id m then Some m else None),
         channel_get := (\<lambda>cid gid.
           if cid = channel_id ch \<and> gid = channel_guild_id ch then Some ch else None),
         guild_get := (\<lambda>gid. if gid = guild_id g then Some g else None),
         role_get := (\<lambda>rid. if rid = role_id r then Some r else None),
         channels_all := (\<lambda>gid. if gid = channel_guild_id ch then [ch] else []) \<rparr>"

text \<open>
  A message table given by its rows, newest first, and the current bucket. A page is
  cut to \<open>limit\<close> rows, as the query's \<^verbatim>\<open>.limit(limit)\<close> asks.
\<close>

definition message_env :: "message list \<Rightarrow> int \<Rightarrow> env" where
  "message_env msgs current =
     empty_env
       \<lparr> messages_page := (\<lambda>cid b limit.
           take (nat limit)
             (filter (\<lambda>m. msg_channel_id m = cid \<and> msg_bucket_id m = b) msgs)),
         message_get := (\<lambda>mid cid b.
           find (\<lambda>m. msg_id m = mid \<and> msg_channel_id m = cid \<and> msg_bucket_id m = b) msgs),
         get_bucket := (\<lambda>_. current) \<rparr>"

definition alice :: user where
  "alice = \<lparr> user_id = 1, user_bot = False, user_flags = 0 \<rparr>"

definition robot :: user where
  "robot = \<lparr> user_id = 2, user_bot = True, user_flags = 0 \<rparr>"

definition member_of :: "user \<Rightarrow> bool \<Rightarrow> int list \<Rightarrow> member" where
  "member_of u own rs =
     \<lparr> member_id = user_id u, member_guild_id = 10, member_owner = own, member_roles = rs \<rparr>"

definition channel_with :: "permission_overwrites list \<Rightarrow> guild_channel" where
  "channel_with ows =
     \<lparr> channel_id = 20, channel_guild_id = 10, channel_position = 1,
       channel_parent_id = None, channel_permission_overwrites = ows \<rparr>"

definition sunken_channel :: guild_channel where
  "sunken_channel =
     \<lparr> channel_id = 20, channel_guild_id = 10, channel_position = - 1,
       channel_parent_id = None, channel_permission_overwrites = [] \<rparr>"

definition guild_with :: "int \<Rightarrow> guild" where
  "guild_with bits = \<lparr> guild_id = 10, guild_permissions = bits \<rparr>"

definition role_with :: "int \<Rightarrow> role" where
  "role_with bits = \<lparr> role_id = 30, role_permissions = bits \<rparr>"

text \<open>Two overwrites for user 1: one allows \<^verbatim>\<open>send_messages\<close>, one denies it.\<close>

definition allow_send :: permission_overwrites where
  "allow_send = \<lparr> ow_id = 1, ow_allow = 1, ow_deny = 0 \<rparr>"

definition deny_send :: permission_overwrites where
  "deny_send = \<lparr> ow_id = 1, ow_allow = 0, ow_deny = 1 \<rparr>"

definition msg :: "int \<Rightarrow> int \<Rightarrow> message" where
  "msg i b = \<lparr> msg_id = i, msg_channel_id = 1, msg_bucket_id = b, msg_content = [] \<rparr>"

lemmas fixture_defs =
  empty_env_def guild_env_def message_env_def alice_def robot_def member_of_def
  channel_with_def sunken_channel_def guild_with_def role_with_def allow_send_def
  deny_send_def msg_def example_has_flag_def example_flag_bit_def

lemmas io_defs = bind_io_def lookup_def ret_def raise_def getattr_def

lemmas check_defs =
  valid_session_def validate_user_def validate_member_def role_objects_def validate_channel_def

lemmas search_defs = search_messages_def py_range_def py_slice_from_def

section \<open>Facts about the building blocks\<close>

lemma find_overwrite_find:
  "find_overwrite uid ows =
     map_option (\<lambda>ow. (ow_allow ow, ow_deny ow)) (find (\<lambda>ow. ow_id ow = uid) ows)"
  by (induction ows) simp_all

lemma find_overwrite_None:
  "(find_overwrite uid ows = None) = (\<forall>ow \<in> set ows. ow_id ow \<noteq> uid)"
  by (induction ows) simp_all

text \<open>
  \<^verbatim>\<open>validate_user\<close> itself turns a bot away when asked to, right after the token is
  verified.
\<close>

lemma validate_user_stops_bot:
  "verify_token E token = Inr u \<Longrightarrow> user_bot u \<Longrightarrow>
   validate_user E token True = ([VerifyToken token], Inl Forbidden)"
  by (simp add: validate_user_def valid_session_def io_defs)

text \<open>
  \<^verbatim>\<open>validate_member\<close> does not depend on its \<open>stop_bots\<close>, and a successful run
  has verified the token and looked the membership up, nothing else.
\<close>

lemma validate_member_stop_bots:
  "validate_member E token gid stop_bots = validate_member E token gid False"
  by (simp add: validate_member_def)

lemma validate_member_calls:
  assumes "validate_member E token gid stop_bots = (l, Inr (m, u))"
  shows "l = [VerifyToken token, MemberGet (user_id u) gid]"
  using assms
  by (auto simp: check_defs io_defs split: sum.splits option.splits if_splits)

section \<open>Bots\<close>

text \<open>
  C1. The claim: for a token whose user is flagged as a bot, \<^verbatim>\<open>validate_member\<close> with
  \<open>stop_bots\<close> set fails with \<open>Forbidden\<close> before the membership is looked up, hence
  so does \<^verbatim>\<open>validate_channel\<close>. The code does otherwise: run on a store whose only user
  is a bot and a member of guild 10, with \<open>stop_bots\<close> set, \<^verbatim>\<open>validate_member\<close> looks the
  membership up and returns it, and \<^verbatim>\<open>validate_channel\<close> grants \<^verbatim>\<open>send_messages\<close> from the
  guild's default bitset.
\<close>

theorem validate_member_admits_bot:
  "user_bot robot \<and>
   validate_member
     (guild_env robot (member_of robot False []) (channel_with []) (guild_with 1) (role_with 0))
     ''token'' 10 True
     = ([VerifyToken ''token'', MemberGet 2 10], Inr (member_of robot False [], robot)) \<and>
   validate_channel
     (guild_env robot (member_of robot False []) (channel_with []) (guild_with 1) (role_with 0))
     ''token'' 10 20 ''send_messages'' True
     = ([VerifyToken ''token'', MemberGet 2 10, ChannelGet 20 10, GuildGet 10],
        Inr (member_of robot False [], robot, channel_with []))"
  by (simp add: check_defs io_defs fixture_defs)

section \<open>Overwrites\<close>

text \<open>
  C2 (amended). For a resolved member who is not the owner: when the first overwrite of
  the channel whose id is the user's id has a deny bitset that includes the permission,
  \<^verbatim>\<open>validate_channel\<close> fails with \<open>Forbidden\<close>, whatever the overwrite's allow bitset,
  the member's roles and the guild's defaults are. The calls issued are the token
  verification, the membership lookup and the channel lookup: no guild and no role is
  looked up.
\<close>

theorem validate_channel_overwrite_deny:
  assumes "validate_member E token gid stop_bots = (l, Inr (m, u))"
    and "channel_get E cid gid = Some ch"
    and "\<not> member_owner m"
    and "find (\<lambda>ow. ow_id ow = user_id u) (channel_permission_overwrites ch) = Some ow"
    and "has_flag E permission (ow_deny ow) = Some True"
  shows "validate_channel E token gid cid permission stop_bots =
           ([VerifyToken token, MemberGet (user_id u) gid, ChannelGet cid gid], Inl Forbidden)"
  using assms validate_member_calls[OF assms(1)]
  by (simp add: validate_channel_def io_defs find_overwrite_find)

text \<open>
  An instance: the only overwrite denies \<^verbatim>\<open>send_messages\<close> and allows it as well, and the
  guild's default bitset grants it and has the administrator bit.
\<close>

theorem validate_channel_overwrite_deny_witness:
  "validate_channel
     (guild_env alice (member_of alice False [])
        (channel_with [\<lparr> ow_id = 1, ow_allow = 1, ow_deny = 1 \<rparr>]) (guild_with 5) (role_with 0))
     ''token'' 10 20 ''send_messages'' False
   = ([VerifyToken ''token'', MemberGet 1 10, ChannelGet 20 10], Inl Forbidden)"
proof -
  let ?ow = "\<lparr> ow_id = 1, ow_allow = 1, ow_deny = 1 \<rparr>"
  let ?m = "member_of alice False []"
  let ?ch = "channel_with [?ow]"
  let ?E = "guild_env alice ?m ?ch (guild_with 5) (role_with 0)"
  have member: "validate_member ?E ''token'' 10 False
                  = ([VerifyToken ''token'', MemberGet 1 10], Inr (?m, alice))"
    by (simp add: check_defs io_defs fixture_defs)
  have channel: "channel_get ?E 20 10 = Some ?ch"
    by (simp add: fixture_defs)
  have not_owner: "\<not> member_owner ?m"
    by (simp add: fixture_defs)
  have first: "find (\<lambda>ow. ow_id ow = user_id alice) (channel_permission_overwrites ?ch) = Some ?ow"
    by (simp add: fixture_defs)
  have denies: "has_flag ?E ''send_messages'' (ow_deny ?ow) = Some True"
    by (simp add: fixture_defs)
  show ?thesis
    using validate_channel_overwrite_deny[OF member channel not_owner first denies]
    by (simp add: fixture_defs)
qed

text \<open>
  The claim as written speaks of any overwrite for the user that denies the permission.
  When an earlier overwrite for the same user allows it, the scan stops there and access
  is granted.
\<close>

theorem validate_channel_overwrite_deny_counterexample:
  "\<not> member_owner (member_of alice False []) \<and>
   deny_send \<in> set (channel_permission_overwrites (channel_with [allow_send, deny_send])) \<and>
   ow_id deny_send = user_id alice \<and>
   has_flag
     (guild_env alice (member_of alice False []) (channel_with [allow_send, deny_send])
        (guild_with 0) (role_with 0))
     ''send_messages'' (ow_deny deny_send) = Some True \<and>
   validate_channel
     (guild_env alice (member_of alice False []) (channel_with [allow_send, deny_send])
        (guild_with 0) (role_with 0))
     ''token'' 10 20 ''send_messages'' False
   = ([VerifyToken ''token'', MemberGet 1 10, ChannelGet 20 10],
      Inr (member_of alice False [], alice, channel_with [allow_send, deny_send]))"
  by (simp add: check_defs io_defs fixture_defs)

text \<open>
  C5 (amended). For a resolved member who is not the owner: when the first overwrite of
  the channel whose id is the user's id has an allow bitset that includes the permission
  and a deny bitset that does not, \<^verbatim>\<open>validate_channel\<close> succeeds with the member, the user
  and the channel, whatever the member's roles and the guild's default bitset are: neither
  is looked up.
\<close>

theorem validate_channel_overwrite_allow:
  assumes "validate_member E token gid stop_bots = (l, Inr (m, u))"
    and "channel_get E cid gid = Some ch"
    and "\<not> member_owner m"
    and "find (\<lambda>ow. ow_id ow = user_id u) (channel_permission_overwrites ch) = Some ow"
    and "has_flag E permission (ow_allow ow) = Some True"
    and "has_flag E permission (ow_deny ow) = Some False"
  shows "validate_channel E token gid cid permission stop_bots =
           ([VerifyToken token, MemberGet (user_id u) gid, ChannelGet cid gid], Inr (m, u, ch))"
  using assms validate_member_calls[OF assms(1)]
  by (simp add: validate_channel_def io_defs find_overwrite_find)

text \<open>
  An instance: the member has no roles and the guild's default bitset is empty.
\<close>

theorem validate_channel_overwrite_allow_witness:
  "validate_channel
     (guild_env alice (member_of alice False []) (channel_with [allow_send])
        (guild_with 0) (role_with 0))
     ''token'' 10 20 ''send_messages'' False
   = ([VerifyToken ''token'', MemberGet 1 10, ChannelGet 20 10],
      Inr (member_of alice False [], alice, channel_with [allow_send]))"
proof -
  let ?m = "member_of alice False []"
  let ?ch = "channel_with [allow_send]"
  let ?E = "guild_env alice ?m ?ch (guild_with 0) (role_with 0)"
  have member: "validate_member ?E ''token'' 10 False
                  = ([VerifyToken ''token'', MemberGet 1 10], Inr (?m, alice))"
    by (simp add: check_defs io_defs fixture_defs)
  have channel: "channel_get ?E 20 10 = Some ?ch"
    by (simp add: fixture_defs)
  have not_owner: "\<not> member_owner ?m"
    by (simp add: fixture_defs)
  have first:
    "find (\<lambda>ow. ow_id ow = user_id alice) (channel_permission_overwrites ?ch) = Some allow_send"
    by (simp add: fixture_defs)
  have allows: "has_flag ?E ''send_messages'' (ow_allow allow_send) = Some True"
    by (simp add: fixture_defs)
  have not_denied: "has_flag ?E ''send_messages'' (ow_deny allow_send) = Some False"
    by (simp add: fixture_defs)
  show ?thesis
    using validate_channel_overwrite_allow[OF member channel not_owner first allows not_denied]
    by (simp add: fixture_defs)
qed

text \<open>
  The claim as written speaks of any overwrite for the user that allows the permission
  and does not deny it. When an earlier overwrite for the same user denies it, the scan
  stops there and access is refused.
\<close>

theorem validate_channel_overwrite_allow_counterexample:
  "\<not> member_owner (member_of alice False []) \<and>
   allow_send \<in> set (channel_permission_overwrites (channel_with [deny_send, allow_send])) \<and>
   ow_id allow_send = user_id alice \<and>
   has_flag
     (guild_env alice (member_of alice False []) (channel_with [deny_send, allow_send])
        (guild_with 0) (role_with 0))
     ''send_messages'' (ow_allow allow_send) = Some True \<and>
   has_flag
     (guild_env alice (member_of alice False []) (channel_with [deny_send, allow_send])
        (guild_with 0) (role_with 0))
     ''send_messages'' (ow_deny allow_send) = Some False \<and>
   validate_channel
     (guild_env alice (member_of alice False []) (channel_with [deny_send, allow_send])
        (guild_with 0) (role_with 0))
     ''token'' 10 20 ''send_messages'' False
   = ([VerifyToken ''token'', MemberGet 1 10, ChannelGet 20 10], Inl Forbidden)"
  by (simp add: check_defs io_defs fixture_defs)

section \<open>Baseline permissions\<close>

text \<open>
  C6. For a resolved member who is not the owner, has no roles and no overwrite in the
  channel, in a guild whose row is found and whose flag class knows the administrator
  flag: \<^verbatim>\<open>validate_channel\<close> succeeds if and only if the guild's default bitset includes
  the permission or the administrator bit, and fails otherwise. The calls issued are the
  token verification and the membership, channel and guild lookups: no role is looked up.
\<close>

theorem validate_channel_guild_default:
  assumes "validate_member E token gid stop_bots = (l, Inr (m, u))"
    and "channel_get E cid gid = Some ch"
    and "\<not> member_owner m"
    and "\<forall>ow \<in> set (channel_permission_overwrites ch). ow_id ow \<noteq> user_id u"
    and "member_roles m = []"
    and "guild_get E gid = Some g"
    and "has_flag E ''administator'' (guild_permissions g) = Some admin"
  shows "fst (validate_channel E token gid cid permission stop_bots) =
           [VerifyToken token, MemberGet (user_id u) gid, ChannelGet cid gid, GuildGet gid] \<and>
         (snd (validate_channel E token gid cid permission stop_bots) = Inr (m, u, ch)) =
           (has_flag E permission (guild_permissions g) = Some True \<or> admin) \<and>
         (\<exists>e. snd (validate_channel E token gid cid permission stop_bots) = Inl e) =
           (\<not> (has_flag E permission (guild_permissions g) = Some True \<or> admin))"
proof -
  have none: "find_overwrite (user_id u) (channel_permission_overwrites ch) = None"
    using assms(4) by (simp add: find_overwrite_None)
  show ?thesis
    using assms(1,2,3,5,6,7) none validate_member_calls[OF assms(1)]
    by (cases "has_flag E permission (guild_permissions g)")
       (auto simp: validate_channel_def io_defs)
qed

text \<open>
  An instance: the default bitset has \<^verbatim>\<open>send_messages\<close> only, so \<^verbatim>\<open>send_messages\<close> is granted
  and \<^verbatim>\<open>manage_channels\<close> is refused, with the same four calls.
\<close>

theorem validate_channel_guild_default_witness:
  "validate_channel
     (guild_env alice (member_of alice False []) (channel_with []) (guild_with 1) (role_with 7))
     ''token'' 10 20 ''send_messages'' False
   = ([VerifyToken ''token'', MemberGet 1 10, ChannelGet 20 10, GuildGet 10],
      Inr (member_of alice False [], alice, channel_with [])) \<and>
   (\<exists>e. snd (validate_channel
     (guild_env alice (member_of alice False []) (channel_with []) (guild_with 1) (role_with 7))
     ''token'' 10 20 ''manage_channels'' False) = Inl e)"
proof -
  let ?m = "member_of alice False []"
  let ?ch = "channel_with []"
  let ?g = "guild_with 1"
  let ?E = "guild_env alice ?m ?ch ?g (role_with 7)"
  have member: "validate_member ?E ''token'' 10 False
                  = ([VerifyToken ''token'', MemberGet 1 10], Inr (?m, alice))"
    by (simp add: check_defs io_defs fixture_defs)
  have channel: "channel_get ?E 20 10 = Some ?ch"
    by (simp add: fixture_defs)
  have not_owner: "\<not> member_owner ?m"
    by (simp add: fixture_defs)
  have no_overwrite: "\<forall>ow \<in> set (channel_permission_overwrites ?ch). ow_id ow \<noteq> user_id alice"
    by (simp add: fixture_defs)
  have no_roles: "member_roles ?m = []"
    by (simp add: fixture_defs)
  have guild: "guild_get ?E 10 = Some ?g"
    by (simp add: fixture_defs)
  have admin: "has_flag ?E ''administator'' (guild_permissions ?g) = Some False"
    by (simp add: fixture_defs)
  have send: "has_flag ?E ''send_messages'' (guild_permissions ?g) = Some True"
    by (simp add: fixture_defs)
  have manage: "has_flag ?E ''manage_channels'' (guild_permissions ?g) = Some False"
    by (simp add: fixture_defs)
  note default = validate_channel_guild_default[OF member channel not_owner no_overwrite
      no_roles guild admin]
  have "validate_channel ?E ''token'' 10 20 ''send_messages'' False
        = ([VerifyToken ''token'', MemberGet 1 10, ChannelGet 20 10, GuildGet 10],
           Inr (?m, alice, ?ch))"
    using default[of "''send_messages''"] send
    by (simp add: prod_eq_iff alice_def)
  moreover have "\<exists>e. snd (validate_channel ?E ''token'' 10 20 ''manage_channels'' False) = Inl e"
    using default[of "''manage_channels''"] manage by simp
  ultimately show ?thesis by simp
qed

text \<open>
  The administrator bit of the guild's default bitset: a resolved member who is not the
  owner, has no roles and no overwrite in the channel is granted every permission name,
  also one the flag class does not know, whose evaluation would raise.
\<close>

lemma validate_channel_administrator_roleless:
  assumes "validate_member E token gid stop_bots = (l, Inr (m, u))"
    and "channel_get E cid gid = Some ch"
    and "\<not> member_owner m"
    and "\<forall>ow \<in> set (channel_permission_overwrites ch). ow_id ow \<noteq> user_id u"
    and "member_roles m = []"
    and "guild_get E gid = Some g"
    and "has_flag E ''administator'' (guild_permissions g) = Some True"
  shows "snd (validate_channel E token gid cid permission stop_bots) = Inr (m, u, ch)"
proof -
  have none: "find_overwrite (user_id u) (channel_permission_overwrites ch) = None"
    using assms(4) by (simp add: find_overwrite_None)
  show ?thesis
    using assms(1,2,3,5,6,7) none
    by (simp add: validate_channel_def io_defs)
qed

text \<open>
  A member with roles: once no overwrite matches, the role lookup raises, whatever the
  role's bitset is, and the channel lookup is the last call issued.
\<close>

lemma validate_channel_with_roles:
  assumes "validate_member E token gid stop_bots = (l, Inr (m, u))"
    and "channel_get E cid gid = Some ch"
    and "\<not> member_owner m"
    and "\<forall>ow \<in> set (channel_permission_overwrites ch). ow_id ow \<noteq> user_id u"
    and "member_roles m = rid # rest"
  shows "validate_channel E token gid cid permission stop_bots =
           (l @ [ChannelGet cid gid], Inl QueryException)"
proof -
  have none: "find_overwrite (user_id u) (channel_permission_overwrites ch) = None"
    using assms(4) by (simp add: find_overwrite_None)
  show ?thesis
    using assms(1,2,3,5) none
    by (simp add: validate_channel_def role_objects_def io_defs)
qed

text \<open>
  C7. The claim: when no overwrite matches and the baseline bitset (the first role's, or
  the guild's default without roles) includes the administrator bit, \<^verbatim>\<open>validate_channel\<close>
  succeeds for every permission name. The code does otherwise for a member with roles:
  the member below is not the owner and has no overwrite, the first role, 30, has the
  administrator bit, and \<^verbatim>\<open>validate_channel\<close> raises \<open>QueryException\<close> at the role lookup
  instead of granting.
\<close>

theorem validate_channel_role_lookup_raises:
  "\<not> member_owner (member_of alice False [30, 31]) \<and>
   find (\<lambda>ow. ow_id ow = user_id alice) (channel_permission_overwrites (channel_with [])) = None \<and>
   baseline_permissions
     (guild_env alice (member_of alice False [30, 31]) (channel_with [])
        (guild_with 0) (role_with 4))
     10 (member_of alice False [30, 31]) = Some 4 \<and>
   has_flag
     (guild_env alice (member_of alice False [30, 31]) (channel_with [])
        (guild_with 0) (role_with 4))
     ''administator'' 4 = Some True \<and>
   validate_channel
     (guild_env alice (member_of alice False [30, 31]) (channel_with [])
        (guild_with 0) (role_with 4))
     ''token'' 10 20 ''send_messages'' False
   = ([VerifyToken ''token'', MemberGet 1 10, ChannelGet 20 10], Inl QueryException)"
  by (simp add: check_defs io_defs baseline_permissions_def fixture_defs)

section \<open>Owners\<close>

text \<open>
  C8. Once the member resolves and the channel is found, a member flagged as owner is
  granted every permission name: the result is the resolved member, user and channel,
  whatever the channel's overwrites, the member's roles and the guild's defaults are,
  and the channel lookup is the last call issued.
\<close>

theorem validate_channel_owner:
  assumes "validate_member E token gid stop_bots = (l, Inr (m, u))"
    and "channel_get E cid gid = Some ch"
    and "member_owner m"
  shows "validate_channel E token gid cid permission stop_bots =
           ([VerifyToken token, MemberGet (user_id u) gid, ChannelGet cid gid], Inr (m, u, ch))"
  using assms validate_member_calls[OF assms(1)]
  by (simp add: validate_channel_def io_defs)

text \<open>
  An instance: the owner's own overwrite denies the permission, the owner has no roles
  and the guild's default bitset is empty.
\<close>

theorem validate_channel_owner_witness:
  "validate_channel
     (guild_env alice (member_of alice True []) (channel_with [deny_send])
        (guild_with 0) (role_with 0))
     ''token'' 10 20 ''send_messages'' False
   = ([VerifyToken ''token'', MemberGet 1 10, ChannelGet 20 10],
      Inr (member_of alice True [], alice, channel_with [deny_send]))"
proof -
  let ?m = "member_of alice True []"
  let ?ch = "channel_with [deny_send]"
  let ?E = "guild_env alice ?m ?ch (guild_with 0) (role_with 0)"
  have member: "validate_member ?E ''token'' 10 False
                  = ([VerifyToken ''token'', MemberGet 1 10], Inr (?m, alice))"
    by (simp add: check_defs io_defs fixture_defs)
  have channel: "channel_get ?E 20 10 = Some ?ch"
    by (simp add: fixture_defs)
  have is_owner: "member_owner ?m"
    by (simp add: fixture_defs)
  show ?thesis
    using validate_channel_owner[OF member channel is_owner]
    by (simp add: fixture_defs)
qed

section \<open>Messages\<close>

lemma set_py_range: "set (py_range n) = {b. 0 \<le> b \<and> b < n}"
proof (intro set_eqI iffI)
  fix b
  assume "b \<in> set (py_range n)"
  then show "b \<in> {b. 0 \<le> b \<and> b < n}"
    by (auto simp: py_range_def)
next
  fix b
  assume "b \<in> {b. 0 \<le> b \<and> b < n}"
  then have "nat b < nat n" and "b = int (nat b)"
    by auto
  then show "b \<in> set (py_range n)"
    unfolding py_range_def set_map set_upt by (intro image_eqI[of _ _ "nat b"]) auto
qed

lemma collect_messages_calls:
  "set (fst (collect_messages E cid limit bs collected))
     \<subseteq> (\<lambda>b. MessagesPage cid b limit) ` set bs"
proof (induction bs arbitrary: collected)
  case Nil
  show ?case by simp
next
  case (Cons b bs)
  show ?case
    using Cons.IH[of "collected @ [messages_page E cid b limit]"]
    by (auto simp: Let_def split: prod.splits)
qed

lemma find_message_calls:
  "set (fst (find_message E mid cid bs)) \<subseteq> (\<lambda>b. MessageGet mid cid b) ` set bs"
  by (induction bs) (auto split: option.splits prod.splits)

lemma find_message_None:
  "\<forall>b \<in> set bs. message_get E mid cid b = None \<Longrightarrow> snd (find_message E mid cid bs) = None"
  by (induction bs) (auto split: prod.splits)

lemma find_message_Some:
  "b \<in> set bs \<Longrightarrow> message_get E mid cid b = Some m \<Longrightarrow>
   \<forall>b' \<in> set bs. b' \<noteq> b \<longrightarrow> message_get E mid cid b' = None \<Longrightarrow>
   snd (find_message E mid cid bs) = Some m"
proof (induction bs)
  case Nil
  then show ?case by simp
next
  case (Cons a bs)
  show ?case
  proof (cases "a = b")
    case True
    with Cons.prems(2) show ?thesis by simp
  next
    case False
    with Cons.prems have "message_get E mid cid a = None" and "b \<in> set bs"
      by auto
    with Cons show ?thesis
      by (auto split: prod.splits)
  qed
qed

text \<open>
  What the point lookup does find: an identifier stored in no bucket is absent, and a
  message stored in a bucket below the current one (and in no other) is returned.
\<close>

lemma search_messages_absent:
  assumes "\<forall>b. message_get E mid cid b = None"
  shows "snd (search_messages E cid (Some mid) limit) = Inr NoMessage"
proof -
  have "snd (find_message E mid cid (py_range (get_bucket E cid))) = None"
    using assms by (intro find_message_None) simp
  then show ?thesis
    by (auto simp: search_messages_def split: prod.splits option.splits)
qed

lemma search_messages_below_current:
  assumes "0 \<le> b" and "b < get_bucket E cid"
    and "message_get E mid cid b = Some m"
    and "\<forall>b'. b' \<noteq> b \<longrightarrow> message_get E mid cid b' = None"
  shows "snd (search_messages E cid (Some mid) limit) = Inr (OneMessage m)"
proof -
  have "b \<in> set (py_range (get_bucket E cid))"
    using assms(1,2) by (simp add: set_py_range)
  then have "snd (find_message E mid cid (py_range (get_bucket E cid))) = Some m"
    using assms(3,4) by (intro find_message_Some) auto
  then show ?thesis
    by (auto simp: search_messages_def split: prod.splits option.splits)
qed

lemma upt_two: "[0..<2] = [0, Suc 0]"
  by (simp add: upt_rec)

text \<open>
  C3. The claim: the listing returns at most \<open>limit\<close> messages. The code does
  otherwise: with two buckets of two messages each and \<open>limit = 2\<close>, each bucket's page
  becomes one element of the result, the result has two elements, which is not more than
  \<open>limit\<close>, so nothing is cut, and the pages returned hold four messages.
\<close>

theorem search_messages_exceeds_limit:
  "search_messages (message_env [msg 4 1, msg 3 1, msg 2 0, msg 1 0] 2) 1 None 2 =
     ([MessagesPage 1 0 2, MessagesPage 1 1 2],
      Inr (Messages [[msg 2 0, msg 1 0], [msg 4 1, msg 3 1]])) \<and>
   (2::int) < int (length (concat [[msg 2 0, msg 1 0], [msg 4 1, msg 3 1]]))"
  by (simp add: search_defs fixture_defs upt_two)

text \<open>
  C4. The claim: the point lookup returns the stored message in whichever bucket from 0 up
  to the current one it lies. The code does otherwise: a message stored in the current
  bucket is not found, since the loop runs over \<^verbatim>\<open>range(current_bucket)\<close> and stops one
  bucket short.
\<close>

theorem search_messages_misses_current_bucket:
  "get_bucket (message_env [msg 7 1] 1) 1 = 1 \<and>
   message_get (message_env [msg 7 1] 1) 7 1 1 = Some (msg 7 1) \<and>
   search_messages (message_env [msg 7 1] 1) 1 (Some 7) 50 = ([MessageGet 7 1 0], Inr NoMessage)"
  by (simp add: search_defs fixture_defs)

text \<open>
  C10. Every call that \<^verbatim>\<open>search_messages\<close> issues, on the listing path and on the point
  lookup path, is a query on a bucket from 0 to one below the current bucket of the
  channel, never on the current bucket itself. When the current bucket is 0, the listing
  is empty and the point lookup is absent, and no call is issued.
\<close>

theorem search_messages_buckets:
  "(\<forall>c \<in> set (fst (search_messages E cid message_id limit)).
      \<exists>b. bucket_of_call c = Some b \<and> 0 \<le> b \<and> b < get_bucket E cid) \<and>
   (get_bucket E cid = 0 \<longrightarrow>
      search_messages E cid None limit = ([], Inr (Messages [])) \<and>
      search_messages E cid (Some mid) limit = ([], Inr NoMessage))"
proof (intro conjI ballI impI)
  fix c
  assume c: "c \<in> set (fst (search_messages E cid message_id limit))"
  show "\<exists>b. bucket_of_call c = Some b \<and> 0 \<le> b \<and> b < get_bucket E cid"
  proof (cases message_id)
    case None
    with c have "c \<in> set (fst (collect_messages E cid limit (py_range (get_bucket E cid)) []))"
      by (simp add: search_messages_def split: prod.splits)
    then obtain b where "c = MessagesPage cid b limit" "b \<in> set (py_range (get_bucket E cid))"
      using collect_messages_calls by blast
    then show ?thesis by (simp add: bucket_of_call_def set_py_range)
  next
    case (Some i)
    with c have "c \<in> set (fst (find_message E i cid (py_range (get_bucket E cid))))"
      by (auto simp: search_messages_def split: prod.splits option.splits)
    then obtain b where "c = MessageGet i cid b" "b \<in> set (py_range (get_bucket E cid))"
      using find_message_calls by blast
    then show ?thesis by (simp add: bucket_of_call_def set_py_range)
  qed
next
  assume "get_bucket E cid = 0"
  then show "search_messages E cid None limit = ([], Inr (Messages []))"
    by (simp add: search_defs)
next
  assume "get_bucket E cid = 0"
  then show "search_messages E cid (Some mid) limit = ([], Inr NoMessage)"
    by (simp add: search_defs)
qed

text \<open>
  An instance: with current bucket 2 the listing queries buckets 0 and 1, and with
  current bucket 0 a message stored in bucket 0 is absent and nothing is queried.
\<close>

theorem search_messages_buckets_witness:
  "MessagesPage 1 1 5
     \<in> set (fst (search_messages (message_env [msg 4 1, msg 3 1, msg 2 0, msg 1 0] 2) 1 None 5)) \<and>
   (\<exists>b. bucket_of_call (MessagesPage 1 1 5) = Some b \<and> 0 \<le> b \<and>
        b < get_bucket (message_env [msg 4 1, msg 3 1, msg 2 0, msg 1 0] 2) 1) \<and>
   search_messages (message_env [msg 7 0] 0) 1 None 5 = ([], Inr (Messages [])) \<and>
   search_messages (message_env [msg 7 0] 0) 1 (Some 7) 5 = ([], Inr NoMessage)"
proof -
  let ?E = "message_env [msg 4 1, msg 3 1, msg 2 0, msg 1 0] 2"
  let ?Empty = "message_env [msg 7 0] 0"
  have calls: "fst (search_messages ?E 1 None 5) = [MessagesPage 1 0 5, MessagesPage 1 1 5]"
    by (simp add: search_defs fixture_defs upt_two)
  then have issued: "MessagesPage 1 1 5 \<in> set (fst (search_messages ?E 1 None 5))"
    by simp
  have current: "get_bucket ?Empty 1 = 0"
    by (simp add: fixture_defs)
  from search_messages_buckets[of ?E 1 None 5] issued
  have "\<exists>b. bucket_of_call (MessagesPage 1 1 5) = Some b \<and> 0 \<le> b \<and> b < get_bucket ?E 1"
    by blast
  moreover from search_messages_buckets[of ?Empty 1 None 5 7] current
  have "search_messages ?Empty 1 None 5 = ([], Inr (Messages [])) \<and>
        search_messages ?Empty 1 (Some 7) 5 = ([], Inr NoMessage)"
    by blast
  ultimately show ?thesis
    using issued by blast
qed

section \<open>Channel positions\<close>

lemma Max_insert_pair:
  "finite S \<Longrightarrow> Max (insert (max a b) S) = Max (insert a (insert b S))" for a :: int
  by (cases "S = {}") (simp_all add: max.assoc)

lemma highest_position_Max:
  "foldl (\<lambda>highest_pos channel.
            if channel_position channel > highest_pos then channel_position channel
            else highest_pos) a chans
   = Max (insert a (channel_position ` set chans))"
proof (induction chans arbitrary: a)
  case Nil
  show ?case by simp
next
  case (Cons c cs)
  have step:
    "(if channel_position c > a then channel_position c else a) = max a (channel_position c)"
    by (simp add: max_def)
  show ?case
    unfolding foldl_Cons step Cons.IH
    by (simp add: Max_insert_pair)
qed

text \<open>
  C9 (amended). \<^verbatim>\<open>verify_channel_position\<close> reads the guild's channels once and changes
  nothing; it succeeds if and only if the position is one more than the largest of 0 and
  the positions of the guild's channels, and raises \<open>BadData\<close> otherwise. In a guild
  without channels the only position accepted is 1.
\<close>

theorem verify_channel_position_floor:
  "verify_channel_position E pos gid =
     ([ChannelsAll gid],
      if pos = Max (insert 0 (channel_position ` set (channels_all E gid))) + 1
      then Inr () else Inl BadData)"
  by (simp add: verify_channel_position_def highest_position_def highest_position_Max)

text \<open>
  The claim as written takes the maximum of the existing positions alone. A guild whose
  only channel has position \<open>- 1\<close> has maximum \<open>- 1\<close>, and position 0, one more, is
  refused.
\<close>

theorem verify_channel_position_counterexample:
  "channels_all
     (guild_env alice (member_of alice False []) sunken_channel (guild_with 0) (role_with 0)) 10
     = [sunken_channel] \<and>
   (0::int) = max_position [sunken_channel] + 1 \<and>
   verify_channel_position
     (guild_env alice (member_of alice False []) sunken_channel (guild_with 0) (role_with 0)) 0 10
     = ([ChannelsAll 10], Inl BadData)"
  by (simp add: verify_channel_position_def highest_position_def max_position_def fixture_defs)

text \<open>
  Where the guild has a channel and no position is negative, the floor does not show:
  the position accepted is one more than the maximum of the existing positions.
\<close>

lemma verify_channel_position_max:
  assumes "channels_all E gid \<noteq> []"
    and "0 \<le> max_position (channels_all E gid)"
  shows "(snd (verify_channel_position E pos gid) = Inr ())
           = (pos = max_position (channels_all E gid) + 1)"
proof -
  have "Max (insert 0 (channel_position ` set (channels_all E gid)))
          = max_position (channels_all E gid)"
    using assms by (simp add: max_position_def max_def)
  then show ?thesis
    by (simp add: verify_channel_position_def highest_position_def highest_position_Max)
qed

end
